theory Spec2Isabelle
  imports Complex_Main "HOL-Library.AList"
begin

section \<open>Power Supps storefront: cart, shipping, checkout, reviews, reports\<close>

text \<open>
  A shallow embedding of the request handlers of \<^verbatim>\<open>src/app.py\<close>. Every handler is a
  function of the Flask session, the database and the request's parameters, returning its
  response together with the new session and database. A handler that leaves through a
  flash message and a redirect, or through a Python exception, returns an \<open>error\<close>.

  What is abstracted: flash messages and rendered HTML (a response names its template or
  its redirect target only), timestamps, and the prices' IEEE doubles, which are exact
  reals here (no rounding, no NaN, no infinities). A string is the list of its
  characters, so that \<open>length\<close> is Python's \<open>len\<close> on ASCII text.
\<close>

subsection \<open>Python's \<open>str\<close> and \<open>int\<close> on integers\<close>

definition digit_char :: "nat \<Rightarrow> char" where
  "digit_char d = ''0123456789'' ! d"

fun str_nat :: "nat \<Rightarrow> string" where
  "str_nat n = (if n < 10 then [digit_char n] else str_nat (n div 10) @ [digit_char (n mod 10)])"

declare str_nat.simps [simp del]

text \<open>\<open>str(i)\<close> for a Python int: the decimal digits, after a minus sign when negative.\<close>

definition str_int :: "int \<Rightarrow> string" where
  "str_int i = (if i < 0 then CHR ''-'' # str_nat (nat (- i)) else str_nat (nat i))"

definition digit_val :: "char \<Rightarrow> nat option" where
  "digit_val c = map_of (zip ''0123456789'' [0, 1, 2, 3, 4, 5, 6, 7, 8, 9]) c"

fun digits_val :: "nat \<Rightarrow> string \<Rightarrow> nat option" where
  "digits_val acc [] = Some acc"
| "digits_val acc (c # cs) =
     (case digit_val c of None \<Rightarrow> None | Some d \<Rightarrow> digits_val (10 * acc + d) cs)"

text \<open>
  \<open>int(s)\<close> for a string, in base 10: whitespace (C's \<open>isspace\<close>) around an optional sign
  and a literal, without whitespace between the two; \<open>None\<close> is Python's ValueError. The
  literal is a run of decimal digits in which single underscores may stand between two
  digits. Every string that \<open>str_int\<close> produces is of this form. Outside ASCII Python also
  reads the digits and spaces of other scripts, which are ValueError here; and recent
  versions of Python refuse a literal of more than 4300 digits, which is read here.
\<close>

definition int_space :: "char \<Rightarrow> bool" where
  "int_space c = (c \<in> set [CHR 0x09, CHR 0x0A, CHR 0x0B, CHR 0x0C, CHR 0x0D, CHR '' ''])"

fun double_underscore :: "string \<Rightarrow> bool" where
  "double_underscore (c # c' # cs) =
     ((c = CHR ''_'' \<and> c' = CHR ''_'') \<or> double_underscore (c' # cs))"
| "double_underscore cs = False"

definition int_literal :: "string \<Rightarrow> nat option" where
  "int_literal b =
     (if b = [] \<or> hd b = CHR ''_'' \<or> last b = CHR ''_'' \<or> double_underscore b then None
      else digits_val 0 (filter (\<lambda>c. c \<noteq> CHR ''_'') b))"

definition py_int :: "string \<Rightarrow> int option" where
  "py_int s =
     (let t = dropWhile int_space s;
          body = takeWhile (\<lambda>c. \<not> int_space c) t;
          rest = dropWhile (\<lambda>c. \<not> int_space c) t
      in if \<not> list_all int_space rest then None
         else
           (case body of
              [] \<Rightarrow> None
            | c # cs \<Rightarrow>
                if c = CHR ''-'' then map_option (\<lambda>n. - int n) (int_literal cs)
                else if c = CHR ''+'' then map_option int (int_literal cs)
                else map_option int (int_literal body)))"

subsection \<open>The session and its cart\<close>

text \<open>
  A key of a Python dict is an int or a string, and \<open>1\<close> and \<open>'1'\<close> are different keys.
  The cart is a dict from keys to quantities: an association list in insertion order,
  where \<open>c[k] = v\<close> is \<open>AList.update\<close>, \<open>del c[k]\<close> is \<open>AList.delete\<close>, \<open>c.get(k)\<close> is
  \<open>map_of\<close> and \<open>k in c\<close> is \<open>map_of c k \<noteq> None\<close>. Between two requests the session
  travels as JSON in a cookie, which may reorder a dict's entries; the properties below
  that read a cart of several entries hold for either order.
\<close>

datatype key = KInt int | KStr string

type_synonym cart = "(key \<times> int) list"

text \<open>The keys of Flask's \<open>session\<close> that the handlers use; \<open>None\<close> is an absent key.\<close>

record session =
  sess_usuario :: "string option"
  sess_carrinho :: "cart option"
  sess_frete :: "real option"
  sess_cep_usuario :: "string option"

datatype error =
    AuthRequired      \<comment> \<open>flash and redirect to the login page\<close>
  | ValidationError   \<comment> \<open>flash and redirect back to the form\<close>
  | BadRequest        \<comment> \<open>\<open>request.form[k]\<close> on a missing field\<close>
  | ValueError        \<comment> \<open>\<open>int(s)\<close> on a string that is no integer\<close>
  | AttributeError    \<comment> \<open>an attribute of \<open>None\<close>\<close>
  | OverflowError     \<comment> \<open>an int that does not fit an INTEGER column\<close>

datatype response = Redirect string | Render string

text \<open>\<open>session.get('carrinho', {})\<close>\<close>

definition get_carrinho :: "session \<Rightarrow> cart" where
  "get_carrinho s = (case sess_carrinho s of None \<Rightarrow> [] | Some c \<Rightarrow> c)"

definition adicionar_ao_carrinho :: "int \<Rightarrow> session \<Rightarrow> (error + response) \<times> session" where
  "adicionar_ao_carrinho ident s =
     (if sess_usuario s = None then (Inl AuthRequired, s)
      else
        let carrinho = get_carrinho s;
            id_str = KStr (str_int ident);
            carrinho = AList.update id_str
              ((case map_of carrinho id_str of None \<Rightarrow> 0 | Some q \<Rightarrow> q) + 1) carrinho
        in (Inr (Redirect ''index''), s\<lparr>sess_carrinho := Some carrinho\<rparr>))"

definition alterar_quantidade :: "int \<Rightarrow> string option \<Rightarrow> session \<Rightarrow> response \<times> session" where
  "alterar_quantidade produto_id acao s =
     (let carrinho = get_carrinho s;
          produto_id_str = KStr (str_int produto_id);
          carrinho =
            (case map_of carrinho produto_id_str of
               None \<Rightarrow> carrinho
             | Some q \<Rightarrow>
                 if acao = Some ''mais'' then AList.update produto_id_str (q + 1) carrinho
                 else if acao = Some ''menos'' then
                   (let carrinho = AList.update produto_id_str (q - 1) carrinho
                    in if q - 1 \<le> 0 then AList.delete produto_id_str carrinho else carrinho)
                 else carrinho)
      in (Redirect ''carrinho'', s\<lparr>sess_carrinho := Some carrinho\<rparr>))"

text \<open>The route hands \<open>produto_id\<close> over as an int, and the handler looks that int up.\<close>

definition remover_do_carrinho :: "int \<Rightarrow> session \<Rightarrow> response \<times> session" where
  "remover_do_carrinho produto_id s =
     (let carrinho = get_carrinho s;
          carrinho =
            (if map_of carrinho (KInt produto_id) \<noteq> None
             then AList.delete (KInt produto_id) carrinho else carrinho)
      in (Redirect ''carrinho'', s\<lparr>sess_carrinho := Some carrinho\<rparr>))"

definition limpar_carrinho :: "session \<Rightarrow> response \<times> session" where
  "limpar_carrinho s = (Redirect ''carrinho'', s\<lparr>sess_carrinho := Some []\<rparr>)"

text \<open>A request to one of the four cart routes, and a sequence of them on one session.\<close>

datatype cart_op = Add int | Alter int "string option" | Remove int | Clear

fun cart_step :: "session \<Rightarrow> cart_op \<Rightarrow> session" where
  "cart_step s (Add i) = snd (adicionar_ao_carrinho i s)"
| "cart_step s (Alter i acao) = snd (alterar_quantidade i acao s)"
| "cart_step s (Remove i) = snd (remover_do_carrinho i s)"
| "cart_step s Clear = snd (limpar_carrinho s)"

definition cart_run :: "session \<Rightarrow> cart_op list \<Rightarrow> session" where
  "cart_run s ops = foldl cart_step s ops"

definition logged_in :: session where
  "logged_in = \<lparr>sess_usuario = Some ''ana'', sess_carrinho = None, sess_frete = None,
     sess_cep_usuario = None\<rparr>"

subsection \<open>The database\<close>

text \<open>
  One record per model class, one list of rows per table, in insertion order. The
  \<open>data\<close> columns (timestamps) are left out. The columns of an address hold what
  \<open>request.form.get\<close> returned: \<open>None\<close> for an absent field.
\<close>

record produto =
  p_id :: int
  p_nome :: string
  p_imagem :: string
  p_preco :: real

record usuario =
  u_id :: int
  u_nome :: string
  u_senha :: string

record pedido =
  ped_id :: int
  ped_usuario_id :: int

record item_pedido =
  it_id :: int
  it_pedido_id :: int
  it_produto_id :: int

record avaliacao =
  av_id :: int
  av_usuario_id :: int
  av_produto_id :: int
  av_nota :: int
  av_comentario :: string

record endereco =
  e_id :: int
  e_pedido_id :: int
  e_cep :: "string option"
  e_rua :: "string option"
  e_numero_endereco :: "string option"
  e_complemento :: "string option"
  e_bairro :: "string option"
  e_cidade :: "string option"
  e_estado :: "string option"

record db =
  produtos :: "produto list"
  usuarios :: "usuario list"
  pedidos :: "pedido list"
  itens_pedido :: "item_pedido list"
  avaliacoes :: "avaliacao list"
  enderecos :: "endereco list"

text \<open>
  \<open>Produto.query.get(k)\<close>. The handlers pass an int (after \<open>int(k)\<close>) or the cart's key as
  it is, a string; the integer column then compares with the number the string denotes,
  and a string that denotes none matches no row. The column's reading of a string is
  taken to be that of \<open>int\<close>; the two agree on the keys that the handlers write.
\<close>

definition Produto_get :: "db \<Rightarrow> key \<Rightarrow> produto option" where
  "Produto_get d k =
     (case k of
        KInt i \<Rightarrow> find (\<lambda>p. p_id p = i) (produtos d)
      | KStr s \<Rightarrow>
          (case py_int s of None \<Rightarrow> None | Some i \<Rightarrow> find (\<lambda>p. p_id p = i) (produtos d)))"

text \<open>\<open>Usuario.query.filter_by(nome=n).first()\<close>\<close>

definition Usuario_first :: "db \<Rightarrow> string \<Rightarrow> usuario option" where
  "Usuario_first d n = find (\<lambda>u. u_nome u = n) (usuarios d)"

text \<open>The id an integer primary key gives a new row: one more than the largest.\<close>

definition new_id :: "int list \<Rightarrow> int" where
  "new_id ids = (if ids = [] then 1 else Max (set ids) + 1)"

text \<open>\<open>db.session.add\<close> of a new row, with the id the flush gives it.\<close>

definition add_pedido :: "int \<Rightarrow> db \<Rightarrow> pedido \<times> db" where
  "add_pedido usuario_id d =
     (let p = \<lparr>ped_id = new_id (map ped_id (pedidos d)), ped_usuario_id = usuario_id\<rparr>
      in (p, d\<lparr>pedidos := pedidos d @ [p]\<rparr>))"

definition add_item :: "int \<Rightarrow> int \<Rightarrow> db \<Rightarrow> db" where
  "add_item pedido_id produto_id d =
     d\<lparr>itens_pedido := itens_pedido d @
        [\<lparr>it_id = new_id (map it_id (itens_pedido d)), it_pedido_id = pedido_id,
          it_produto_id = produto_id\<rparr>]\<rparr>"

subsection \<open>The cart page\<close>

text \<open>\<open>int(prod_id_str)\<close> on a key of the cart\<close>

fun key_int :: "key \<Rightarrow> error + int" where
  "key_int (KInt i) = Inr i"
| "key_int (KStr s) = (case py_int s of None \<Rightarrow> Inl ValueError | Some i \<Rightarrow> Inr i)"

record cart_line =
  ln_produto :: produto
  ln_quantidade :: int
  ln_subtotal :: real

text \<open>The variables that \<open>carrinho\<close> hands to its template.\<close>

record cart_page =
  pg_itens :: "cart_line list"
  pg_total :: real
  pg_tem_frete_gratis :: bool
  pg_valor_faltante :: real
  pg_frete :: "real option"
  pg_cep_usuario :: "string option"
  pg_total_geral :: real

fun carrinho_loop :: "db \<Rightarrow> cart \<Rightarrow> cart_line list \<Rightarrow> real \<Rightarrow> error + cart_line list \<times> real" where
  "carrinho_loop d [] itens tot = Inr (itens, tot)"
| "carrinho_loop d ((prod_id_str, quantidade) # rest) itens tot =
     (case key_int prod_id_str of
        Inl e \<Rightarrow> Inl e
      | Inr prod_id \<Rightarrow>
          (case Produto_get d (KInt prod_id) of
             None \<Rightarrow> carrinho_loop d rest itens tot
           | Some produto \<Rightarrow>
               let subtotal = p_preco produto * of_int quantidade
               in carrinho_loop d rest
                    (itens @ [\<lparr>ln_produto = produto, ln_quantidade = quantidade,
                               ln_subtotal = subtotal\<rparr>])
                    (tot + subtotal)))"

definition carrinho :: "session \<Rightarrow> db \<Rightarrow> error + cart_page" where
  "carrinho s d =
     (if sess_usuario s = None then Inl AuthRequired
      else
        case carrinho_loop d (get_carrinho s) [] 0 of
          Inl e \<Rightarrow> Inl e
        | Inr (itens, tot) \<Rightarrow>
            let frete_minimo = 250;
                valor_faltante = max 0 (frete_minimo - tot);
                tem_frete_gratis = (tot \<ge> frete_minimo);
                frete = sess_frete s;
                cep_usuario = sess_cep_usuario s;
                frete = (if tem_frete_gratis then Some 0 else frete);
                \<comment> \<open>\<open>frete if frete else 0\<close>: a fee of 0 is false, and counts as 0 as well\<close>
                total_geral = tot + (case frete of None \<Rightarrow> 0 | Some f \<Rightarrow> f)
            in Inr \<lparr>pg_itens = itens, pg_total = tot, pg_tem_frete_gratis = tem_frete_gratis,
                 pg_valor_faltante = valor_faltante, pg_frete = frete,
                 pg_cep_usuario = cep_usuario, pg_total_geral = total_geral\<rparr>)"

subsection \<open>The shipping fee\<close>

fun frete_loop :: "db \<Rightarrow> cart \<Rightarrow> real \<Rightarrow> error + real" where
  "frete_loop d [] tot = Inr tot"
| "frete_loop d ((prod_id_str, quantidade) # rest) tot =
     (case key_int prod_id_str of
        Inl e \<Rightarrow> Inl e
      | Inr prod_id \<Rightarrow>
          (case Produto_get d (KInt prod_id) of
             None \<Rightarrow> frete_loop d rest tot
           | Some produto \<Rightarrow> frete_loop d rest (tot + p_preco produto * of_int quantidade)))"

text \<open>
  \<open>cep\<close> is \<open>request.form.get("cep")\<close>: \<open>None\<close> when the field is absent. An exception
  leaves the session as it was.
\<close>

definition calcular_frete :: "string option \<Rightarrow> session \<Rightarrow> db \<Rightarrow> (error + response) \<times> session" where
  "calcular_frete cep s d =
     (case cep of
        None \<Rightarrow> (Inl ValidationError, s)
      | Some c \<Rightarrow>
          if c = [] \<or> length c < 8 then (Inl ValidationError, s)
          else
            (case frete_loop d (get_carrinho s) 0 of
               Inl e \<Rightarrow> (Inl e, s)
             | Inr tot \<Rightarrow>
                 let frete = (if tot \<ge> 250 then 0 else 19.90)
                 in (Inr (Redirect ''carrinho''),
                     s\<lparr>sess_cep_usuario := Some c, sess_frete := Some frete\<rparr>)))"

subsection \<open>Checkout\<close>

datatype http_method = GET | POST

text \<open>The fields of the address form, each \<open>request.form.get\<close> of its name.\<close>

record form_compra =
  f_cep :: "string option"
  f_rua :: "string option"
  f_numero :: "string option"
  f_complemento :: "string option"
  f_bairro :: "string option"
  f_cidade :: "string option"
  f_estado :: "string option"
  f_email :: "string option"

text \<open>Python's truth value of a form field: \<open>None\<close> and the empty string are false.\<close>

definition truthy :: "string option \<Rightarrow> bool" where
  "truthy v = (case v of None \<Rightarrow> False | Some x \<Rightarrow> x \<noteq> [])"

text \<open>The fields that the handler requires: the list it passes to \<open>all\<close>.\<close>

definition campos_obrigatorios :: "form_compra \<Rightarrow> string option list" where
  "campos_obrigatorios form =
     [f_cep form, f_rua form, f_numero form, f_bairro form, f_cidade form, f_estado form,
      f_email form]"

definition add_endereco :: "int \<Rightarrow> form_compra \<Rightarrow> db \<Rightarrow> db" where
  "add_endereco pedido_id form d =
     d\<lparr>enderecos := enderecos d @
        [\<lparr>e_id = new_id (map e_id (enderecos d)), e_pedido_id = pedido_id,
          e_cep = f_cep form, e_rua = f_rua form, e_numero_endereco = f_numero form,
          e_complemento = f_complemento form, e_bairro = f_bairro form,
          e_cidade = f_cidade form, e_estado = f_estado form\<rparr>]\<rparr>"

text \<open>\<open>for _ in range(quantidade)\<close>: one row per unit.\<close>

fun add_itens :: "int \<Rightarrow> int \<Rightarrow> nat \<Rightarrow> db \<Rightarrow> db" where
  "add_itens pedido_id produto_id 0 d = d"
| "add_itens pedido_id produto_id (Suc n) d =
     add_itens pedido_id produto_id n (add_item pedido_id produto_id d)"

record item_email =
  ie_produto :: string
  ie_quantidade :: int
  ie_preco :: real

text \<open>
  The loop over the cart. The row's \<open>produto_id\<close> is the key \<open>pid\<close> as the integer column
  stores it: the id of the product that \<open>pid\<close> selected.
\<close>

fun compra_loop :: "int \<Rightarrow> cart \<Rightarrow> db \<Rightarrow> real \<Rightarrow> item_email list \<Rightarrow> db \<times> real \<times> item_email list" where
  "compra_loop pedido_id [] d tot itens_para_email = (d, tot, itens_para_email)"
| "compra_loop pedido_id ((pid, quantidade) # rest) d tot itens_para_email =
     (case Produto_get d pid of
        None \<Rightarrow> compra_loop pedido_id rest d tot itens_para_email
      | Some produto \<Rightarrow>
          compra_loop pedido_id rest
            (add_itens pedido_id (p_id produto) (nat quantidade) d)
            (tot + p_preco produto * of_int quantidade)
            (itens_para_email @
               [\<lparr>ie_produto = p_nome produto, ie_quantidade = quantidade,
                 ie_preco = p_preco produto\<rparr>]))"

text \<open>The arguments of one call of \<open>enviar_confirmacao_compra\<close>.\<close>

record compra_call =
  cc_nome :: string
  cc_email_destino :: "string option"
  cc_itens :: "item_email list"
  cc_total :: real

text \<open>
  What a request to \<open>finalizar_compra\<close> leaves behind: the response, the session, the
  committed database, the calls of the notifier and the lines printed.
\<close>

record outcome =
  out_resp :: "error + response"
  out_sess :: session
  out_db :: db
  out_mail :: "compra_call list"
  out_log :: "string list"

definition leave :: "error + response \<Rightarrow> session \<Rightarrow> db \<Rightarrow> outcome" where
  "leave r s d = \<lparr>out_resp = r, out_sess = s, out_db = d, out_mail = [], out_log = []\<rparr>"

text \<open>
  \<open>mail_raises\<close> tells whether the call of \<open>enviar_confirmacao_compra\<close> raises an
  exception (the module defines that function twice; either one is called inside the
  same \<open>try\<close>, after the commit). Rows are added to a working copy of the database, which the commit makes
  the database; an exception before the commit leaves the database as it was. The commit
  itself is taken to succeed.
\<close>

definition finalizar_compra ::
  "(compra_call \<Rightarrow> bool) \<Rightarrow> http_method \<Rightarrow> form_compra \<Rightarrow> session \<Rightarrow> db \<Rightarrow> outcome" where
  "finalizar_compra mail_raises meth form s d =
     (case sess_usuario s of
        None \<Rightarrow> leave (Inl AuthRequired) s d
      | Some nome \<Rightarrow>
          if meth = POST then
            if \<not> list_all truthy (campos_obrigatorios form)
            then leave (Inl ValidationError) s d
            else
              (case Usuario_first d nome of
                 None \<Rightarrow> leave (Inl AttributeError) s d
               | Some usuario \<Rightarrow>
                   let (pedido, d1) = add_pedido (u_id usuario) d;
                       d2 = add_endereco (ped_id pedido) form d1;
                       (d3, tot, itens_para_email) =
                         compra_loop (ped_id pedido) (get_carrinho s) d2 0 [];
                       call = \<lparr>cc_nome = nome, cc_email_destino = f_email form,
                               cc_itens = itens_para_email, cc_total = tot\<rparr>
                   in \<lparr>out_resp = Inr (Render ''obrigado.html''),
                        out_sess = s\<lparr>sess_carrinho := Some []\<rparr>,
                        out_db = d3,
                        out_mail = [call],
                        out_log = (if mail_raises call
                                   then [''Falha ao enviar e-mail de pedido:''] else [])\<rparr>)
          else leave (Inr (Render ''finalizar_compra.html'')) s d)"

subsection \<open>Reviews\<close>

record form_avaliar =
  f_nota :: "string option"
  f_comentario :: "string option"

text \<open>SQLite's INTEGER holds a signed integer of 64 bits.\<close>

definition sqlite_int :: "int \<Rightarrow> bool" where
  "sqlite_int i = (- (2 ^ 63) \<le> i \<and> i < 2 ^ 63)"

text \<open>
  \<open>db.session.add\<close> of the review and \<open>db.session.commit()\<close>. The database driver refuses
  a Python int that does not fit an INTEGER column with an OverflowError, and then no
  row is written.
\<close>

definition add_avaliacao :: "int \<Rightarrow> int \<Rightarrow> int \<Rightarrow> string \<Rightarrow> db \<Rightarrow> error + db" where
  "add_avaliacao usuario_id produto_id nota comentario d =
     (if sqlite_int usuario_id \<and> sqlite_int produto_id \<and> sqlite_int nota
      then Inr (d\<lparr>avaliacoes := avaliacoes d @
             [\<lparr>av_id = new_id (map av_id (avaliacoes d)), av_usuario_id = usuario_id,
               av_produto_id = produto_id, av_nota = nota, av_comentario = comentario\<rparr>]\<rparr>)
      else Inl OverflowError)"

definition avaliar :: "int \<Rightarrow> form_avaliar \<Rightarrow> session \<Rightarrow> db \<Rightarrow> (error + response) \<times> db" where
  "avaliar produto_id form s d =
     (case sess_usuario s of
        None \<Rightarrow> (Inl AuthRequired, d)
      | Some nome \<Rightarrow>
          (case f_nota form of
             None \<Rightarrow> (Inl BadRequest, d)
           | Some nota_str \<Rightarrow>
               (case py_int nota_str of
                  None \<Rightarrow> (Inl ValueError, d)
                | Some nota \<Rightarrow>
                    (case f_comentario form of
                       None \<Rightarrow> (Inl BadRequest, d)
                     | Some comentario \<Rightarrow>
                         (case Usuario_first d nome of
                            None \<Rightarrow> (Inl AttributeError, d)
                          | Some usuario \<Rightarrow>
                              (case add_avaliacao (u_id usuario) produto_id nota comentario d of
                                 Inl e \<Rightarrow> (Inl e, d)
                               | Inr d' \<Rightarrow> (Inr (Redirect ''index''), d')))))))"

subsection \<open>Reports\<close>

text \<open>\<open>item.produto\<close>: the product the row references, \<open>None\<close> when there is none.\<close>

definition item_produto :: "db \<Rightarrow> item_pedido \<Rightarrow> produto option" where
  "item_produto d item = Produto_get d (KInt (it_produto_id item))"

text \<open>\<open>pedido.itens\<close>\<close>

definition pedido_itens :: "db \<Rightarrow> pedido \<Rightarrow> item_pedido list" where
  "pedido_itens d p = filter (\<lambda>item. it_pedido_id item = ped_id p) (itens_pedido d)"

text \<open>
  The names that \<open>relatorios_admin\<close> and \<open>enviar_relatorio\<close> collect into \<open>dados\<close> for the
  chart: rows whose product is gone are skipped.
\<close>

fun dados_loop :: "db \<Rightarrow> item_pedido list \<Rightarrow> string list \<Rightarrow> string list" where
  "dados_loop d [] dados = dados"
| "dados_loop d (item # rest) dados =
     (case item_produto d item of
        None \<Rightarrow> dados_loop d rest dados
      | Some produto \<Rightarrow> dados_loop d rest (dados @ [p_nome produto]))"

text \<open>\<open>None\<close> is the page without a chart; the chart is drawn from \<open>dados\<close>.\<close>

definition relatorios_admin :: "db \<Rightarrow> string list option" where
  "relatorios_admin d =
     (let dados = dados_loop d (itens_pedido d) [] in if dados = [] then None else Some dados)"

text \<open>\<open>total_vendas += item.produto.preco\<close>, for the rows of one order and for all orders.\<close>

fun vendas_itens :: "db \<Rightarrow> item_pedido list \<Rightarrow> real \<Rightarrow> error + real" where
  "vendas_itens d [] total_vendas = Inr total_vendas"
| "vendas_itens d (item # rest) total_vendas =
     (case item_produto d item of
        None \<Rightarrow> Inl AttributeError
      | Some produto \<Rightarrow> vendas_itens d rest (total_vendas + p_preco produto))"

fun vendas_pedidos :: "db \<Rightarrow> pedido list \<Rightarrow> real \<Rightarrow> error + real" where
  "vendas_pedidos d [] total_vendas = Inr total_vendas"
| "vendas_pedidos d (p # rest) total_vendas =
     (case vendas_itens d (pedido_itens d p) total_vendas of
        Inl e \<Rightarrow> Inl e
      | Inr t \<Rightarrow> vendas_pedidos d rest t)"

record relatorio =
  r_total_usuarios :: nat
  r_total_produtos :: nat
  r_total_pedidos :: nat
  r_total_vendas :: real
  r_dados :: "string list"

text \<open>The aggregate that \<open>enviar_relatorio\<close> puts into its e-mail.\<close>

definition enviar_relatorio :: "db \<Rightarrow> error + relatorio" where
  "enviar_relatorio d =
     (let total_usuarios = length (usuarios d);
          total_produtos = length (produtos d);
          total_pedidos = length (pedidos d)
      in case vendas_pedidos d (pedidos d) 0 of
           Inl e \<Rightarrow> Inl e
         | Inr total_vendas \<Rightarrow>
             Inr \<lparr>r_total_usuarios = total_usuarios, r_total_produtos = total_produtos,
                  r_total_pedidos = total_pedidos, r_total_vendas = total_vendas,
                  r_dados = dados_loop d (itens_pedido d) []\<rparr>)"

subsection \<open>The specification's stripped postal code\<close>

text \<open>
  The specification measures a postal code after stripping. \<open>spec_strip\<close> follows its
  words (Python's \<open>str.strip\<close> on ASCII whitespace); no handler calls it.
\<close>

definition is_space :: "char \<Rightarrow> bool" where
  "is_space c = (c \<in> set [CHR '' '', CHR 0x09, CHR 0x0A, CHR 0x0B, CHR 0x0C, CHR 0x0D])"

definition spec_strip :: "string \<Rightarrow> string" where
  "spec_strip s = rev (dropWhile is_space (rev (dropWhile is_space s)))"

subsection \<open>A small shop\<close>

definition loja :: db where
  "loja =
     \<lparr>produtos =
        [\<lparr>p_id = 1, p_nome = ''Whey'', p_imagem = ''a.png'', p_preco = 10\<rparr>,
         \<lparr>p_id = 2, p_nome = ''Creatina'', p_imagem = ''b.png'', p_preco = 5\<rparr>],
      usuarios = [\<lparr>u_id = 1, u_nome = ''ana'', u_senha = ''s''\<rparr>],
      pedidos = [], itens_pedido = [], avaliacoes = [], enderecos = []\<rparr>"

definition form_completo :: form_compra where
  "form_completo =
     \<lparr>f_cep = Some ''01001000'', f_rua = Some ''Rua A'', f_numero = Some ''10'',
      f_complemento = None, f_bairro = Some ''Centro'', f_cidade = Some ''Sao Paulo'',
      f_estado = Some ''SP'', f_email = Some ''ana@example.com''\<rparr>"

text \<open>Sessions of the user with carts worth 25.00 and 250.00 in that shop.\<close>

definition sessao_ab :: session where
  "sessao_ab =
     \<lparr>sess_usuario = Some ''ana'', sess_carrinho = Some [(KStr ''1'', 2), (KStr ''2'', 1)],
      sess_frete = None, sess_cep_usuario = None\<rparr>"

definition sessao_25 :: session where
  "sessao_25 =
     \<lparr>sess_usuario = Some ''ana'', sess_carrinho = Some [(KStr ''1'', 25)],
      sess_frete = None, sess_cep_usuario = None\<rparr>"

text \<open>A database in which the only order row references a product that was deleted.\<close>

definition loja_sem_produto :: db where
  "loja_sem_produto =
     \<lparr>produtos = [],
      usuarios = [\<lparr>u_id = 1, u_nome = ''ana'', u_senha = ''s''\<rparr>],
      pedidos = [\<lparr>ped_id = 1, ped_usuario_id = 1\<rparr>],
      itens_pedido = [\<lparr>it_id = 1, it_pedido_id = 1, it_produto_id = 1\<rparr>],
      avaliacoes = [], enderecos = []\<rparr>"

section \<open>Properties\<close>

subsection \<open>\<open>int(str(i)) = i\<close>\<close>

lemma digit_val_digit_char: "d < 10 \<Longrightarrow> digit_val (digit_char d) = Some d"
  by (auto simp: digit_val_def digit_char_def less_Suc_eq numeral_eq_Suc nth_Cons')

lemma digits_val_append:
  "digits_val acc (xs @ ys) = (case digits_val acc xs of None \<Rightarrow> None | Some a \<Rightarrow> digits_val a ys)"
  by (induction xs arbitrary: acc) (auto split: option.splits)

lemma digits_val_str_nat: "digits_val 0 (str_nat n) = Some n"
proof (induction n rule: str_nat.induct)
  case (1 n)
  show ?case
  proof (cases "n < 10")
    case True
    then show ?thesis by (simp add: str_nat.simps [of n] digit_val_digit_char)
  next
    case False
    with 1 have "digits_val 0 (str_nat (n div 10)) = Some (n div 10)" by simp
    with False show ?thesis
      by (simp add: str_nat.simps [of n] digits_val_append digit_val_digit_char)
  qed
qed

lemma str_nat_not_Nil: "str_nat n \<noteq> []"
  by (subst str_nat.simps) auto

lemma str_nat_digits: "c \<in> set (str_nat n) \<Longrightarrow> digit_val c \<noteq> None"
proof (induction n rule: str_nat.induct)
  case (1 n)
  show ?case
  proof (cases "n < 10")
    case True
    with "1.prems" show ?thesis by (auto simp: str_nat.simps [of n] digit_val_digit_char)
  next
    case False
    with 1 show ?thesis
      by (auto simp: str_nat.simps [of n] digit_val_digit_char)
  qed
qed

lemma digit_plain:
  assumes "digit_val c \<noteq> None"
  shows "\<not> int_space c" and "c \<noteq> CHR ''_''" and "c \<noteq> CHR ''-''" and "c \<noteq> CHR ''+''"
  using assms by (auto simp: digit_val_def int_space_def split: if_splits)

lemma no_double_underscore: "CHR ''_'' \<notin> set b \<Longrightarrow> \<not> double_underscore b"
  by (induction b rule: double_underscore.induct) auto

lemma int_literal_digits:
  assumes "b \<noteq> []" and "\<forall>c \<in> set b. digit_val c \<noteq> None"
  shows "int_literal b = digits_val 0 b"
proof -
  from assms(2) have u: "CHR ''_'' \<notin> set b" using digit_plain(2) by blast
  with assms(1) have "hd b \<noteq> CHR ''_''" "last b \<noteq> CHR ''_''"
    by (metis hd_in_set, metis last_in_set)
  moreover from u have "filter (\<lambda>c. c \<noteq> CHR ''_'') b = b" by (auto simp: filter_id_conv)
  ultimately show ?thesis using assms(1) no_double_underscore [OF u]
    by (simp add: int_literal_def)
qed

lemma int_literal_str_nat: "int_literal (str_nat n) = Some n"
  using int_literal_digits [OF str_nat_not_Nil, of n] str_nat_digits
  by (simp add: digits_val_str_nat)

lemma py_int_plain:
  assumes "\<forall>c \<in> set s. \<not> int_space c" and "s = c # cs"
  shows "py_int s =
     (if c = CHR ''-'' then map_option (\<lambda>n. - int n) (int_literal cs)
      else if c = CHR ''+'' then map_option int (int_literal cs)
      else map_option int (int_literal s))"
proof -
  from assms have "dropWhile int_space s = s" by simp
  moreover from assms(1) have "takeWhile (\<lambda>c. \<not> int_space c) s = s"
    "dropWhile (\<lambda>c. \<not> int_space c) s = []" by simp_all
  ultimately show ?thesis using assms(2) by (simp add: py_int_def)
qed

lemma py_int_str_int: "py_int (str_int i) = Some i"
proof -
  obtain c cs where cs: "str_nat (nat \<bar>i\<bar>) = c # cs"
    using str_nat_not_Nil [of "nat \<bar>i\<bar>"] by (cases "str_nat (nat \<bar>i\<bar>)") auto
  have dig: "\<forall>x \<in> set (str_nat (nat \<bar>i\<bar>)). \<not> int_space x"
    using str_nat_digits digit_plain(1) by blast
  show ?thesis
  proof (cases "i < 0")
    case True
    then have s: "str_int i = CHR ''-'' # str_nat (nat \<bar>i\<bar>)" by (simp add: str_int_def)
    have "\<not> int_space CHR ''-''" by (simp add: int_space_def)
    with dig have "\<forall>x \<in> set (str_int i). \<not> int_space x" by (simp add: s)
    from py_int_plain [OF this s] True show ?thesis by (simp add: int_literal_str_nat)
  next
    case False
    then have s: "str_int i = c # cs" using cs by (simp add: str_int_def)
    have "c \<in> set (str_nat (nat \<bar>i\<bar>))" using cs by simp
    then have "digit_val c \<noteq> None" by (rule str_nat_digits)
    then have c: "c \<noteq> CHR ''-''" "c \<noteq> CHR ''+''" by (rule digit_plain(3), rule digit_plain(4))
    from dig cs s have "\<forall>x \<in> set (str_int i). \<not> int_space x" by simp
    from py_int_plain [OF this s] c
    have "py_int (str_int i) = map_option int (int_literal (c # cs))" by (simp add: s)
    then have "py_int (str_int i) = map_option int (int_literal (str_nat (nat \<bar>i\<bar>)))"
      by (simp only: cs)
    then show ?thesis using False by (simp add: int_literal_str_nat)
  qed
qed

lemma str_int_inj: "str_int a = str_int b \<Longrightarrow> a = b"
  by (metis py_int_str_int option.inject)

subsection \<open>The cart\<close>

lemma set_update_cases:
  "(a, b) \<in> set (AList.update k v al) \<Longrightarrow> (a, b) = (k, v) \<or> (a, b) \<in> set al"
  by (induction al) (auto split: if_splits)

lemma set_delete_subset: "(a, b) \<in> set (AList.delete k al) \<Longrightarrow> (a, b) \<in> set al"
  by (simp add: AList.delete_eq)

lemma get_carrinho_update [simp]: "get_carrinho (s\<lparr>sess_carrinho := Some c\<rparr>) = c"
  by (simp add: get_carrinho_def)

lemma adicionar_positive:
  assumes "\<forall>(k, q) \<in> set (get_carrinho s). 1 \<le> q"
  shows "\<forall>(k, q) \<in> set (get_carrinho (snd (adicionar_ao_carrinho i s))). 1 \<le> q"
proof (cases "sess_usuario s = None")
  case True
  with assms show ?thesis by (simp add: adicionar_ao_carrinho_def)
next
  case False
  have "1 \<le> (case map_of (get_carrinho s) (KStr (str_int i)) of None \<Rightarrow> 0 | Some q \<Rightarrow> q) + 1"
    using assms by (auto split: option.splits dest!: map_of_SomeD)
  with False assms show ?thesis
    by (auto simp: adicionar_ao_carrinho_def Let_def dest!: set_update_cases)
qed

lemma alterar_positive:
  assumes "\<forall>(k, q) \<in> set (get_carrinho s). 1 \<le> q"
  shows "\<forall>(k, q) \<in> set (get_carrinho (snd (alterar_quantidade i acao s))). 1 \<le> q"
proof (cases "map_of (get_carrinho s) (KStr (str_int i))")
  case None
  with assms show ?thesis by (simp add: alterar_quantidade_def)
next
  case (Some q)
  then have q: "1 \<le> q" using assms by (auto dest!: map_of_SomeD)
  show ?thesis
  proof (cases "q - 1 \<le> 0")
    case True
    with Some q assms show ?thesis
      by (auto simp: alterar_quantidade_def Let_def AList.delete_update_same
          dest!: set_update_cases set_delete_subset)
  next
    case False
    with Some q assms show ?thesis
      by (auto simp: alterar_quantidade_def Let_def dest!: set_update_cases)
  qed
qed

lemma remover_positive:
  assumes "\<forall>(k, q) \<in> set (get_carrinho s). 1 \<le> q"
  shows "\<forall>(k, q) \<in> set (get_carrinho (snd (remover_do_carrinho i s))). 1 \<le> q"
  using assms by (auto simp: remover_do_carrinho_def Let_def dest!: set_delete_subset)

lemma cart_step_positive:
  assumes "\<forall>(k, q) \<in> set (get_carrinho s). 1 \<le> q"
  shows "\<forall>(k, q) \<in> set (get_carrinho (cart_step s x)). 1 \<le> q"
proof (cases x)
  case (Add i) with assms adicionar_positive show ?thesis by simp
next
  case (Alter i a) with assms alterar_positive show ?thesis by simp
next
  case (Remove i) with assms remover_positive show ?thesis by simp
next
  case Clear then show ?thesis by (simp add: limpar_carrinho_def)
qed

lemma cart_run_positive:
  "\<forall>(k, q) \<in> set (get_carrinho s). 1 \<le> q \<Longrightarrow>
   \<forall>(k, q) \<in> set (get_carrinho (cart_run s ops)). 1 \<le> q"
  unfolding cart_run_def
proof (induction ops arbitrary: s)
  case Nil then show ?case by simp
next
  case (Cons x ops)
  from Cons.prems have "\<forall>(k, q) \<in> set (get_carrinho (cart_step s x)). 1 \<le> q"
    by (rule cart_step_positive)
  then show ?case using Cons.IH by simp
qed

lemma menos_removes:
  assumes "map_of (get_carrinho s) (KStr (str_int p)) = Some q" and "q - 1 \<le> 0"
  shows "map_of (get_carrinho (snd (alterar_quantidade p (Some ''menos'') s))) (KStr (str_int p)) = None"
  using assms by (simp add: alterar_quantidade_def Let_def AList.delete_conv')

text \<open>
  Claim C5. Starting from a session whose cart is empty, after any sequence of requests
  to the add, change-quantity, remove and clear routes every entry of the cart has a
  quantity of at least 1; and where one more \<open>menos\<close> would bring an entry's quantity
  to 0 or below, the request removes the entry, so that the key is absent afterwards.
\<close>

theorem cart_quantity_at_least_one:
  assumes "get_carrinho s = []"
  shows "(\<forall>(k, q) \<in> set (get_carrinho (cart_run s ops)). 1 \<le> q) \<and>
         (\<forall>p q. map_of (get_carrinho (cart_run s ops)) (KStr (str_int p)) = Some q \<and> q - 1 \<le> 0 \<longrightarrow>
            map_of (get_carrinho (snd (alterar_quantidade p (Some ''menos'') (cart_run s ops))))
              (KStr (str_int p)) = None)"
proof
  from assms have "\<forall>(k, q) \<in> set (get_carrinho s). 1 \<le> q" by simp
  then show "\<forall>(k, q) \<in> set (get_carrinho (cart_run s ops)). 1 \<le> q"
    by (rule cart_run_positive)
next
  show "\<forall>p q. map_of (get_carrinho (cart_run s ops)) (KStr (str_int p)) = Some q \<and> q - 1 \<le> 0 \<longrightarrow>
            map_of (get_carrinho (snd (alterar_quantidade p (Some ''menos'') (cart_run s ops))))
              (KStr (str_int p)) = None"
    using menos_removes by blast
qed

lemma str_int_1: "str_int 1 = ''1''"
  by (simp add: str_int_def str_nat.simps digit_char_def)
lemma str_int_2: "str_int 2 = ''2''"
  by (simp add: str_int_def str_nat.simps digit_char_def)

text \<open>
  The theorem at a concrete run: two units of product 1 and one of product 2, then
  \<open>menos\<close> on product 1 twice. The entry goes from 2 to 1 and then disappears.
\<close>

theorem cart_quantity_at_least_one_witness:
  "get_carrinho logged_in = [] \<and>
   get_carrinho (cart_run logged_in [Add 1, Add 1, Add 2, Alter 1 (Some ''menos'')]) =
     [(KStr ''1'', 1), (KStr ''2'', 1)] \<and>
   get_carrinho (cart_run logged_in
     [Add 1, Add 1, Add 2, Alter 1 (Some ''menos''), Alter 1 (Some ''menos'')]) = [(KStr ''2'', 1)]"
  using cart_quantity_at_least_one [of logged_in "[Add 1, Add 1, Add 2, Alter 1 (Some ''menos'')]"]
  by (simp add: cart_run_def logged_in_def get_carrinho_def adicionar_ao_carrinho_def
      alterar_quantidade_def str_int_1 str_int_2 Let_def)

text \<open>
  Claim C6. The claim says that \<open>remover_do_carrinho p\<close> deletes the entry of product
  \<open>p\<close>. The handler looks up the int \<open>p\<close>, while the cart's keys are the strings
  \<open>str(p)\<close> that \<open>adicionar_ao_carrinho\<close> stored: after adding product 1 and then
  removing product 1, the entry is still in the cart.
\<close>

theorem remover_do_carrinho_keeps_entry:
  "get_carrinho (snd (adicionar_ao_carrinho 1 logged_in)) = [(KStr ''1'', 1)] \<and>
   get_carrinho (snd (remover_do_carrinho 1 (snd (adicionar_ao_carrinho 1 logged_in)))) =
     [(KStr ''1'', 1)]"
  by (simp add: logged_in_def get_carrinho_def adicionar_ao_carrinho_def
      remover_do_carrinho_def str_int_1 Let_def)

subsection \<open>Keys of the cart are strings\<close>

lemma cart_step_string_keys:
  assumes "\<forall>(k, q) \<in> set (get_carrinho s). k \<notin> range KInt"
  shows "\<forall>(k, q) \<in> set (get_carrinho (cart_step s x)). k \<notin> range KInt"
proof (cases x)
  case (Add i)
  with assms show ?thesis
    by (auto simp: adicionar_ao_carrinho_def Let_def dest!: set_update_cases)
next
  case (Alter i a)
  with assms show ?thesis
    by (auto simp: alterar_quantidade_def Let_def split: option.splits
        dest!: set_delete_subset set_update_cases)
next
  case (Remove i)
  with assms show ?thesis
    by (auto simp: remover_do_carrinho_def Let_def dest!: set_delete_subset)
next
  case Clear
  then show ?thesis by (simp add: limpar_carrinho_def)
qed

lemma cart_run_string_keys:
  "\<forall>(k, q) \<in> set (get_carrinho s). k \<notin> range KInt \<Longrightarrow>
   \<forall>(k, q) \<in> set (get_carrinho (cart_run s ops)). k \<notin> range KInt"
  unfolding cart_run_def
proof (induction ops arbitrary: s)
  case Nil then show ?case by simp
next
  case (Cons x ops)
  from Cons.prems have "\<forall>(k, q) \<in> set (get_carrinho (cart_step s x)). k \<notin> range KInt"
    by (rule cart_step_string_keys)
  then show ?case using Cons.IH by simp
qed

text \<open>On a cart that the cart routes built, \<open>remover_do_carrinho\<close> removes nothing at all.\<close>

lemma remover_do_carrinho_removes_nothing:
  assumes "get_carrinho s = []"
  shows "get_carrinho (snd (remover_do_carrinho p (cart_run s ops))) = get_carrinho (cart_run s ops)"
proof -
  from assms have "\<forall>(k, q) \<in> set (get_carrinho s). k \<notin> range KInt" by simp
  then have "\<forall>(k, q) \<in> set (get_carrinho (cart_run s ops)). k \<notin> range KInt"
    by (rule cart_run_string_keys)
  then have "KInt p \<notin> fst ` set (get_carrinho (cart_run s ops))" by force
  then have "map_of (get_carrinho (cart_run s ops)) (KInt p) = None"
    by (simp add: map_of_eq_None_iff)
  then show ?thesis by (simp add: remover_do_carrinho_def)
qed

subsection \<open>The shipping fee\<close>

lemma py_int_1: "py_int ''1'' = Some 1"
  using py_int_str_int [of 1] by (simp add: str_int_1)
lemma py_int_2: "py_int ''2'' = Some 2"
  using py_int_str_int [of 2] by (simp add: str_int_2)

lemma frete_loop_error: "frete_loop d c t = Inl e \<Longrightarrow> e = ValueError"
proof (induction c arbitrary: t)
  case Nil then show ?case by simp
next
  case (Cons x c)
  obtain k q where x: "x = (k, q)" by (cases x)
  show ?case
  proof (cases k)
    case (KInt i)
    with Cons x show ?thesis by (auto split: option.splits)
  next
    case (KStr str)
    with Cons x show ?thesis by (auto split: option.splits)
  qed
qed

lemma carrinho_loop_total:
  "frete_loop d c t = Inr S \<Longrightarrow> \<exists>its. carrinho_loop d c itens t = Inr (its, S)"
proof (induction c arbitrary: t itens)
  case Nil then show ?case by simp
next
  case (Cons x c)
  obtain k q where x: "x = (k, q)" by (cases x)
  show ?case
  proof (cases "key_int k")
    case (Inl e)
    with Cons.prems x show ?thesis by simp
  next
    case (Inr i)
    show ?thesis
    proof (cases "Produto_get d (KInt i)")
      case None
      with Cons Inr x show ?thesis by simp
    next
      case (Some p)
      with Cons.prems Inr x
      have "frete_loop d c (t + p_preco p * of_int q) = Inr S" by simp
      from Cons.IH [OF this] Some Inr x show ?thesis by (simp add: Let_def)
    qed
  qed
qed

text \<open>
  Claim C7, as amended. \<open>calcular_frete\<close> measures the postal code as submitted, without
  stripping it: it answers with the validation error exactly when the field is absent or
  has fewer than 8 characters, and then the session, with its cached fee and postal code,
  is left as it was.
\<close>

theorem calcular_frete_rejects_short_raw:
  "(fst (calcular_frete cep s d) = Inl ValidationError) =
     (cep = None \<or> (\<exists>c. cep = Some c \<and> length c < 8)) \<and>
   (cep = None \<or> (\<exists>c. cep = Some c \<and> length c < 8) \<longrightarrow> snd (calcular_frete cep s d) = s)"
proof (cases cep)
  case None
  then show ?thesis by (simp add: calcular_frete_def)
next
  case (Some c)
  show ?thesis
  proof (cases "length c < 8")
    case True
    with Some show ?thesis by (simp add: calcular_frete_def)
  next
    case False
    then have c: "c \<noteq> []" by auto
    show ?thesis
    proof (cases "frete_loop d (get_carrinho s) 0")
      case (Inl e)
      then have "e = ValueError" by (rule frete_loop_error)
      with Inl Some False c show ?thesis by (simp add: calcular_frete_def)
    next
      case (Inr t)
      with Some False c show ?thesis by (simp add: calcular_frete_def Let_def)
    qed
  qed
qed

text \<open>A code of 7 characters is rejected and the session kept; one of 8 is not rejected.\<close>

theorem calcular_frete_rejects_short_raw_witness:
  "fst (calcular_frete (Some ''0100100'') sessao_ab loja) = Inl ValidationError \<and>
   snd (calcular_frete (Some ''0100100'') sessao_ab loja) = sessao_ab \<and>
   fst (calcular_frete (Some ''01001000'') sessao_ab loja) \<noteq> Inl ValidationError"
  using calcular_frete_rejects_short_raw [of "Some ''0100100''" sessao_ab loja]
    calcular_frete_rejects_short_raw [of "Some ''01001000''" sessao_ab loja]
  by simp

text \<open>
  Claim C7 as stated fails: a code of 8 characters of which only 5 remain after
  stripping is shorter than 8 in the specification's measure, yet the handler accepts it
  and stores a quote.
\<close>

theorem calcular_frete_strip_counterexample:
  "length (spec_strip ''  12345 '') < 8 \<and>
   calcular_frete (Some ''  12345 '') sessao_ab loja =
     (Inr (Redirect ''carrinho''),
      sessao_ab\<lparr>sess_cep_usuario := Some ''  12345 '', sess_frete := Some 19.90\<rparr>)"
  by (simp add: spec_strip_def is_space_def calcular_frete_def sessao_ab_def loja_def
      get_carrinho_def Produto_get_def py_int_1 py_int_2)

text \<open>
  Claim C4. Let \<open>S\<close> be the cart's subtotal. When \<open>calcular_frete\<close> accepts the request,
  the fee it stores is 0 if \<open>S \<ge> 250\<close> and 19.90 otherwise; the cart page it redirects
  to computes the same subtotal, shows that fee, and sets its free-shipping flag exactly
  when \<open>S \<ge> 250\<close>. So the fee is 0 with the flag set if and only if \<open>S \<ge> 250\<close>.
\<close>

theorem frete_free_iff_subtotal:
  assumes "calcular_frete cep s d = (Inr r, s')" and "sess_usuario s \<noteq> None"
  shows "\<exists>S pg. frete_loop d (get_carrinho s) 0 = Inr S \<and> carrinho s' d = Inr pg \<and>
           pg_total pg = S \<and>
           sess_frete s' = Some (if 250 \<le> S then 0 else 19.90) \<and>
           pg_tem_frete_gratis pg = (250 \<le> S) \<and>
           pg_frete pg = sess_frete s' \<and>
           ((sess_frete s' = Some 0 \<and> pg_tem_frete_gratis pg) = (250 \<le> S))"
proof -
  from assms(1) obtain c where c: "cep = Some c" "c \<noteq> []" "\<not> length c < 8"
    by (auto simp: calcular_frete_def split: option.splits if_splits)
  with assms(1) obtain S where S: "frete_loop d (get_carrinho s) 0 = Inr S"
    by (auto simp: calcular_frete_def split: sum.splits)
  with c assms(1) have s': "s' = s\<lparr>sess_cep_usuario := Some c,
      sess_frete := Some (if 250 \<le> S then 0 else 19.90)\<rparr>"
    by (simp add: calcular_frete_def Let_def)
  then have cart: "get_carrinho s' = get_carrinho s" by (simp add: get_carrinho_def)
  from carrinho_loop_total [OF S] obtain its where
    "carrinho_loop d (get_carrinho s) [] 0 = Inr (its, S)" by blast
  with s' cart assms(2) S show ?thesis
    by (simp add: carrinho_def Let_def)
qed

text \<open>
  The theorem on a cart worth 25.00 (fee 19.90) and on one worth exactly 250.00 (fee 0).
\<close>

theorem frete_free_iff_subtotal_witness:
  "calcular_frete (Some ''01001000'') sessao_ab loja =
     (Inr (Redirect ''carrinho''),
      sessao_ab\<lparr>sess_cep_usuario := Some ''01001000'', sess_frete := Some 19.90\<rparr>) \<and>
   sess_usuario sessao_ab \<noteq> None \<and>
   frete_loop loja (get_carrinho sessao_ab) 0 = Inr 25 \<and>
   calcular_frete (Some ''01001000'') sessao_25 loja =
     (Inr (Redirect ''carrinho''),
      sessao_25\<lparr>sess_cep_usuario := Some ''01001000'', sess_frete := Some 0\<rparr>) \<and>
   frete_loop loja (get_carrinho sessao_25) 0 = Inr 250"
proof -
  have a: "calcular_frete (Some ''01001000'') sessao_ab loja =
     (Inr (Redirect ''carrinho''),
      sessao_ab\<lparr>sess_cep_usuario := Some ''01001000'', sess_frete := Some 19.90\<rparr>)"
    by (simp add: calcular_frete_def sessao_ab_def loja_def
      get_carrinho_def Produto_get_def py_int_1 py_int_2)
  have b: "calcular_frete (Some ''01001000'') sessao_25 loja =
     (Inr (Redirect ''carrinho''),
      sessao_25\<lparr>sess_cep_usuario := Some ''01001000'', sess_frete := Some 0\<rparr>)"
    by (simp add: calcular_frete_def sessao_25_def loja_def
      get_carrinho_def Produto_get_def py_int_1 py_int_2)
  have u: "sess_usuario sessao_ab \<noteq> None" "sess_usuario sessao_25 \<noteq> None"
    by (simp_all add: sessao_ab_def sessao_25_def)
  from frete_free_iff_subtotal [OF a u(1)] frete_free_iff_subtotal [OF b u(2)] a b u
  show ?thesis
    by (simp add: sessao_ab_def sessao_25_def loja_def get_carrinho_def Produto_get_def
        py_int_1 py_int_2)
qed

subsection \<open>Rows added by the checkout\<close>

lemma new_id_fresh: "new_id ids \<notin> set ids"
proof (cases "ids = []")
  case True then show ?thesis by simp
next
  case False
  show ?thesis
  proof
    assume "new_id ids \<in> set ids"
    then have "new_id ids \<le> Max (set ids)" by simp
    with False show False by (simp add: new_id_def)
  qed
qed

lemma Produto_get_produtos: "produtos d' = produtos d \<Longrightarrow> Produto_get d' k = Produto_get d k"
  by (simp add: Produto_get_def split: key.splits option.splits)

lemma Produto_get_str_int: "Produto_get d (KStr (str_int i)) = Produto_get d (KInt i)"
  by (simp add: Produto_get_def py_int_str_int)

lemma Produto_get_id: "Produto_get d (KInt i) = Some p \<Longrightarrow> p_id p = i"
  by (auto simp: Produto_get_def find_Some_iff)

lemma add_itens_other:
  "produtos (add_itens pe pr n d) = produtos d \<and> usuarios (add_itens pe pr n d) = usuarios d \<and>
   pedidos (add_itens pe pr n d) = pedidos d \<and> enderecos (add_itens pe pr n d) = enderecos d \<and>
   avaliacoes (add_itens pe pr n d) = avaliacoes d"
  by (induction n arbitrary: d) (simp_all add: add_item_def)

lemma add_itens_rows:
  "\<exists>new. itens_pedido (add_itens pe pr n d) = itens_pedido d @ new \<and>
     map it_pedido_id new = replicate n pe \<and> map it_produto_id new = replicate n pr"
proof (induction n arbitrary: d)
  case 0 then show ?case by simp
next
  case (Suc n)
  from Suc [of "add_item pe pr d"] obtain new where
    new: "itens_pedido (add_itens pe pr n (add_item pe pr d)) = itens_pedido (add_item pe pr d) @ new"
      "map it_pedido_id new = replicate n pe" "map it_produto_id new = replicate n pr"
    by blast
  let ?row = "\<lparr>it_id = new_id (map it_id (itens_pedido d)), it_pedido_id = pe, it_produto_id = pr\<rparr>"
  from new have "itens_pedido (add_itens pe pr (Suc n) d) = itens_pedido d @ (?row # new)"
    by (simp add: add_item_def)
  moreover from new have "map it_pedido_id (?row # new) = replicate (Suc n) pe"
    "map it_produto_id (?row # new) = replicate (Suc n) pr" by simp_all
  ultimately show ?case by blast
qed

lemma compra_loop_other:
  "compra_loop pe c d t ies = (d', t', ies') \<Longrightarrow>
   produtos d' = produtos d \<and> usuarios d' = usuarios d \<and> pedidos d' = pedidos d \<and>
   enderecos d' = enderecos d \<and> avaliacoes d' = avaliacoes d"
proof (induction c arbitrary: d t ies)
  case Nil then show ?case by simp
next
  case (Cons x c)
  obtain k q where x: "x = (k, q)" by (cases x)
  show ?case
  proof (cases "Produto_get d k")
    case None
    with Cons x show ?thesis by simp
  next
    case (Some p)
    with Cons.prems x have "compra_loop pe c (add_itens pe (p_id p) (nat q) d)
        (t + p_preco p * of_int q)
        (ies @ [\<lparr>ie_produto = p_nome p, ie_quantidade = q, ie_preco = p_preco p\<rparr>]) = (d', t', ies')"
      by simp
    from Cons.IH [OF this] show ?thesis by (simp add: add_itens_other)
  qed
qed

lemma compra_loop_rows:
  "compra_loop pe c d t ies = (d', t', ies') \<Longrightarrow>
   \<exists>new. itens_pedido d' = itens_pedido d @ new \<and> (\<forall>i \<in> set new. it_pedido_id i = pe)"
proof (induction c arbitrary: d t ies)
  case Nil then show ?case by simp
next
  case (Cons x c)
  obtain k q where x: "x = (k, q)" by (cases x)
  show ?case
  proof (cases "Produto_get d k")
    case None
    with Cons x show ?thesis by simp
  next
    case (Some p)
    with Cons.prems x have "compra_loop pe c (add_itens pe (p_id p) (nat q) d)
        (t + p_preco p * of_int q)
        (ies @ [\<lparr>ie_produto = p_nome p, ie_quantidade = q, ie_preco = p_preco p\<rparr>]) = (d', t', ies')"
      by simp
    from Cons.IH [OF this] obtain new2 where
      n2: "itens_pedido d' = itens_pedido (add_itens pe (p_id p) (nat q) d) @ new2"
        "\<forall>i \<in> set new2. it_pedido_id i = pe" by blast
    from add_itens_rows [of pe "p_id p" "nat q" d] obtain new1 where
      n1: "itens_pedido (add_itens pe (p_id p) (nat q) d) = itens_pedido d @ new1"
        "map it_pedido_id new1 = replicate (nat q) pe" by blast
    from n1(2) have "\<forall>i \<in> set new1. it_pedido_id i = pe"
      by (metis in_set_replicate image_eqI list.set_map)
    with n1 n2 have "itens_pedido d' = itens_pedido d @ (new1 @ new2) \<and>
        (\<forall>i \<in> set (new1 @ new2). it_pedido_id i = pe)" by auto
    then show ?thesis by blast
  qed
qed

text \<open>The successful path of the handler, with the loop's result named.\<close>

lemma finalizar_compra_ok:
  assumes "sess_usuario s = Some nome" and "Usuario_first d nome = Some u"
    and "list_all truthy (campos_obrigatorios form)"
    and "compra_loop (ped_id (fst (add_pedido (u_id u) d))) (get_carrinho s)
           (add_endereco (ped_id (fst (add_pedido (u_id u) d))) form (snd (add_pedido (u_id u) d)))
           0 [] = (d3, tot, ies)"
  shows "finalizar_compra mail_raises POST form s d =
     \<lparr>out_resp = Inr (Render ''obrigado.html''),
      out_sess = s\<lparr>sess_carrinho := Some []\<rparr>,
      out_db = d3,
      out_mail = [\<lparr>cc_nome = nome, cc_email_destino = f_email form, cc_itens = ies,
                   cc_total = tot\<rparr>],
      out_log = (if mail_raises \<lparr>cc_nome = nome, cc_email_destino = f_email form,
                    cc_itens = ies, cc_total = tot\<rparr>
                 then [''Falha ao enviar e-mail de pedido:''] else [])\<rparr>"
  using assms by (simp add: finalizar_compra_def Let_def split_def)

lemma add_pedido_simps:
  "ped_usuario_id (fst (add_pedido uid d)) = uid"
  "pedidos (snd (add_pedido uid d)) = pedidos d @ [fst (add_pedido uid d)]"
  "produtos (snd (add_pedido uid d)) = produtos d"
  "usuarios (snd (add_pedido uid d)) = usuarios d"
  "itens_pedido (snd (add_pedido uid d)) = itens_pedido d"
  "enderecos (snd (add_pedido uid d)) = enderecos d"
  "avaliacoes (snd (add_pedido uid d)) = avaliacoes d"
  by (simp_all add: add_pedido_def Let_def)

lemma add_endereco_simps:
  "pedidos (add_endereco pe form d) = pedidos d"
  "produtos (add_endereco pe form d) = produtos d"
  "usuarios (add_endereco pe form d) = usuarios d"
  "itens_pedido (add_endereco pe form d) = itens_pedido d"
  "avaliacoes (add_endereco pe form d) = avaliacoes d"
  "\<exists>e. enderecos (add_endereco pe form d) = enderecos d @ [e] \<and> e_pedido_id e = pe \<and>
      e_cep e = f_cep form \<and> e_rua e = f_rua form \<and> e_numero_endereco e = f_numero form \<and>
      e_complemento e = f_complemento form \<and> e_bairro e = f_bairro form \<and>
      e_cidade e = f_cidade form \<and> e_estado e = f_estado form"
  by (simp_all add: add_endereco_def)

lemma compra_loop_two:
  assumes x: "Produto_get d (KInt x) = Some px" and y: "Produto_get d (KInt y) = Some py"
  shows "\<exists>d' new ies.
     compra_loop pe [(KStr (str_int x), qx), (KStr (str_int y), qy)] d 0 [] =
       (d', p_preco px * of_int qx + p_preco py * of_int qy, ies) \<and>
     itens_pedido d' = itens_pedido d @ new \<and>
     map it_pedido_id new = replicate (nat qx + nat qy) pe \<and>
     map it_produto_id new = replicate (nat qx) x @ replicate (nat qy) y"
proof -
  let ?d1 = "add_itens pe x (nat qx) d"
  let ?d2 = "add_itens pe y (nat qy) ?d1"
  have idx: "p_id px = x" and idy: "p_id py = y"
    using x y by (auto dest: Produto_get_id)
  have y1: "Produto_get ?d1 (KStr (str_int y)) = Some py"
    using y add_itens_other [of pe x "nat qx" d]
    by (simp add: Produto_get_str_int Produto_get_produtos [of ?d1 d])
  have run: "compra_loop pe [(KStr (str_int x), qx), (KStr (str_int y), qy)] d 0 [] =
      (?d2, p_preco px * of_int qx + p_preco py * of_int qy,
       [\<lparr>ie_produto = p_nome px, ie_quantidade = qx, ie_preco = p_preco px\<rparr>,
        \<lparr>ie_produto = p_nome py, ie_quantidade = qy, ie_preco = p_preco py\<rparr>])"
    using x y1 idx idy by (simp add: Produto_get_str_int)
  from add_itens_rows [of pe x "nat qx" d] obtain n1 where
    n1: "itens_pedido ?d1 = itens_pedido d @ n1" "map it_pedido_id n1 = replicate (nat qx) pe"
      "map it_produto_id n1 = replicate (nat qx) x" by blast
  from add_itens_rows [of pe y "nat qy" ?d1] obtain n2 where
    n2: "itens_pedido ?d2 = itens_pedido ?d1 @ n2" "map it_pedido_id n2 = replicate (nat qy) pe"
      "map it_produto_id n2 = replicate (nat qy) y" by blast
  from n1 n2 have "itens_pedido ?d2 = itens_pedido d @ (n1 @ n2)"
    "map it_pedido_id (n1 @ n2) = replicate (nat qx + nat qy) pe"
    "map it_produto_id (n1 @ n2) = replicate (nat qx) x @ replicate (nat qy) y"
    by (simp_all add: replicate_add)
  with run show ?thesis by blast
qed

lemma find_snoc_fresh:
  "\<forall>y \<in> set xs. \<not> P y \<Longrightarrow> P x \<Longrightarrow> find P (xs @ [x]) = Some x"
  by (induction xs) auto

lemma Produto_get_loja:
  "Produto_get loja (KInt 1) = Some \<lparr>p_id = 1, p_nome = ''Whey'', p_imagem = ''a.png'', p_preco = 10\<rparr>"
  "Produto_get loja (KInt 2) = Some \<lparr>p_id = 2, p_nome = ''Creatina'', p_imagem = ''b.png'', p_preco = 5\<rparr>"
  by (simp_all add: Produto_get_def loja_def)

lemma Usuario_first_loja: "Usuario_first loja ''ana'' = Some \<lparr>u_id = 1, u_nome = ''ana'', u_senha = ''s''\<rparr>"
  by (simp add: Usuario_first_def loja_def)

lemma form_completo_ok: "list_all truthy (campos_obrigatorios form_completo)"
  by (simp add: campos_obrigatorios_def form_completo_def truthy_def)

subsection \<open>Checkout\<close>

text \<open>
  Claim C2. When at least one required field of the address form is absent, a checkout
  request creates no row: the database is the one before the request, and so is the
  session, and the notifier is not called. The response is the validation error for an
  authenticated session (for a session that is not logged in, the login redirect comes
  first).
\<close>

theorem checkout_missing_field_unchanged:
  assumes "None \<in> set (campos_obrigatorios form)"
  shows "out_resp (finalizar_compra mail_raises POST form s d) =
           (if sess_usuario s = None then Inl AuthRequired else Inl ValidationError) \<and>
         out_db (finalizar_compra mail_raises POST form s d) = d \<and>
         out_sess (finalizar_compra mail_raises POST form s d) = s \<and>
         out_mail (finalizar_compra mail_raises POST form s d) = []"
proof -
  have "\<not> truthy None" by (simp add: truthy_def)
  with assms have "\<not> list_all truthy (campos_obrigatorios form)"
    unfolding list_all_iff by blast
  then show ?thesis
    by (simp add: finalizar_compra_def leave_def split: option.splits)
qed

text \<open>
  The theorem on the shop, with the street missing from the form.
\<close>

theorem checkout_missing_field_unchanged_witness:
  "None \<in> set (campos_obrigatorios (form_completo\<lparr>f_rua := None\<rparr>)) \<and>
   out_resp (finalizar_compra (\<lambda>c. False) POST (form_completo\<lparr>f_rua := None\<rparr>) sessao_ab loja) =
     Inl ValidationError \<and>
   out_db (finalizar_compra (\<lambda>c. False) POST (form_completo\<lparr>f_rua := None\<rparr>) sessao_ab loja) = loja"
  using checkout_missing_field_unchanged
    [of "form_completo\<lparr>f_rua := None\<rparr>" "\<lambda>c. False" sessao_ab loja]
  by (simp add: campos_obrigatorios_def form_completo_def sessao_ab_def)

text \<open>
  Claim C9. With an empty cart, a complete form and a session whose user has a row, the
  checkout does not reject the request: it answers with the thank-you page, adds one
  order of that user and one address linked to it, adds no order item, and hands the
  total 0 to the notifier.
\<close>

theorem checkout_empty_cart_succeeds:
  fixes mail_raises :: "compra_call \<Rightarrow> bool" and form :: form_compra
    and s :: session and d :: db
  assumes "sess_usuario s = Some nome" and "Usuario_first d nome = Some u"
    and "list_all truthy (campos_obrigatorios form)" and "get_carrinho s = []"
  defines "r \<equiv> finalizar_compra mail_raises POST form s d"
  shows "\<exists>ped e. out_resp r = Inr (Render ''obrigado.html'') \<and>
     pedidos (out_db r) = pedidos d @ [ped] \<and> ped_usuario_id ped = u_id u \<and>
     enderecos (out_db r) = enderecos d @ [e] \<and> e_pedido_id e = ped_id ped \<and>
     itens_pedido (out_db r) = itens_pedido d \<and>
     out_mail r = [\<lparr>cc_nome = nome, cc_email_destino = f_email form, cc_itens = [],
                    cc_total = 0\<rparr>]"
proof -
  let ?ped = "fst (add_pedido (u_id u) d)"
  let ?d2 = "add_endereco (ped_id ?ped) form (snd (add_pedido (u_id u) d))"
  have "compra_loop (ped_id ?ped) (get_carrinho s) ?d2 0 [] = (?d2, 0, [])"
    using assms(4) by simp
  from finalizar_compra_ok [OF assms(1-3) this, of mail_raises]
  have r: "out_resp r = Inr (Render ''obrigado.html'')" "out_db r = ?d2"
    "out_mail r = [\<lparr>cc_nome = nome, cc_email_destino = f_email form, cc_itens = [],
                    cc_total = 0\<rparr>]"
    by (simp_all add: r_def)
  from add_endereco_simps(6) [of "ped_id ?ped" form "snd (add_pedido (u_id u) d)"]
  obtain e where e: "enderecos ?d2 = enderecos d @ [e]" "e_pedido_id e = ped_id ?ped"
    by (auto simp: add_pedido_simps)
  from r e show ?thesis
    by (intro exI [of _ ?ped] exI [of _ e]) (simp add: add_pedido_simps add_endereco_simps(1-5))
qed

text \<open>
  The theorem on the shop, for the session that has no cart yet.
\<close>

theorem checkout_empty_cart_succeeds_witness:
  "sess_usuario logged_in = Some ''ana'' \<and> get_carrinho logged_in = [] \<and>
   out_resp (finalizar_compra (\<lambda>c. False) POST form_completo logged_in loja) =
     Inr (Render ''obrigado.html'') \<and>
   pedidos (out_db (finalizar_compra (\<lambda>c. False) POST form_completo logged_in loja)) =
     [\<lparr>ped_id = 1, ped_usuario_id = 1\<rparr>] \<and>
   map e_pedido_id (enderecos (out_db (finalizar_compra (\<lambda>c. False) POST form_completo logged_in loja))) = [1] \<and>
   itens_pedido (out_db (finalizar_compra (\<lambda>c. False) POST form_completo logged_in loja)) = [] \<and>
   map cc_total (out_mail (finalizar_compra (\<lambda>c. False) POST form_completo logged_in loja)) = [0]"
proof -
  have u: "sess_usuario logged_in = Some ''ana''" by (simp add: logged_in_def)
  have c: "get_carrinho logged_in = []" by (simp add: logged_in_def get_carrinho_def)
  have p: "pedidos loja = []" "enderecos loja = []" "itens_pedido loja = []"
    by (simp_all add: loja_def)
  from checkout_empty_cart_succeeds [OF u Usuario_first_loja form_completo_ok c, of "\<lambda>c. False"]
  obtain ped e where
    h: "out_resp (finalizar_compra (\<lambda>c. False) POST form_completo logged_in loja) =
          Inr (Render ''obrigado.html'')"
       "pedidos (out_db (finalizar_compra (\<lambda>c. False) POST form_completo logged_in loja)) =
          pedidos loja @ [ped]"
       "enderecos (out_db (finalizar_compra (\<lambda>c. False) POST form_completo logged_in loja)) =
          enderecos loja @ [e]"
       "e_pedido_id e = ped_id ped"
       "itens_pedido (out_db (finalizar_compra (\<lambda>c. False) POST form_completo logged_in loja)) =
          itens_pedido loja"
       "out_mail (finalizar_compra (\<lambda>c. False) POST form_completo logged_in loja) =
          [\<lparr>cc_nome = ''ana'', cc_email_destino = f_email form_completo, cc_itens = [],
            cc_total = 0\<rparr>]"
    by blast
  have ped: "pedidos (out_db (finalizar_compra (\<lambda>c. False) POST form_completo logged_in loja)) =
     [\<lparr>ped_id = 1, ped_usuario_id = 1\<rparr>]"
    by (simp add: finalizar_compra_def logged_in_def get_carrinho_def form_completo_def
        campos_obrigatorios_def truthy_def loja_def Usuario_first_def add_pedido_def
        add_endereco_def new_id_def Let_def)
  with h(2) p have "ped = \<lparr>ped_id = 1, ped_usuario_id = 1\<rparr>" by simp
  with h p u c ped show ?thesis by simp
qed

lemma checkout_two:
  fixes mail_raises :: "compra_call \<Rightarrow> bool" and form :: form_compra
    and s :: session and d :: db
  assumes auth: "sess_usuario s = Some nome" and user: "Usuario_first d nome = Some u"
    and form: "list_all truthy (campos_obrigatorios form)"
    and cart: "get_carrinho s = [(KStr (str_int x), qx), (KStr (str_int y), qy)]"
    and px: "Produto_get d (KInt x) = Some px" and py: "Produto_get d (KInt y) = Some py"
  defines "r \<equiv> finalizar_compra mail_raises POST form s d"
  shows "\<exists>ped new call. out_resp r = Inr (Render ''obrigado.html'') \<and>
     pedidos (out_db r) = pedidos d @ [ped] \<and>
     itens_pedido (out_db r) = itens_pedido d @ new \<and>
     map it_pedido_id new = replicate (nat qx + nat qy) (ped_id ped) \<and>
     map it_produto_id new = replicate (nat qx) x @ replicate (nat qy) y \<and>
     out_mail r = [call] \<and>
     cc_total call = p_preco px * of_int qx + p_preco py * of_int qy \<and>
     get_carrinho (out_sess r) = []"
proof -
  let ?ped = "fst (add_pedido (u_id u) d)"
  let ?d2 = "add_endereco (ped_id ?ped) form (snd (add_pedido (u_id u) d))"
  have prods: "produtos ?d2 = produtos d"
    by (simp add: add_pedido_simps add_endereco_simps(1-5))
  have "Produto_get ?d2 (KInt x) = Some px" "Produto_get ?d2 (KInt y) = Some py"
    using px py Produto_get_produtos [OF prods] by simp_all
  from compra_loop_two [OF this, of "ped_id ?ped" qx qy] obtain d3 new ies where
    loop: "compra_loop (ped_id ?ped) [(KStr (str_int x), qx), (KStr (str_int y), qy)] ?d2 0 [] =
        (d3, p_preco px * of_int qx + p_preco py * of_int qy, ies)"
    and new: "itens_pedido d3 = itens_pedido ?d2 @ new"
      "map it_pedido_id new = replicate (nat qx + nat qy) (ped_id ?ped)"
      "map it_produto_id new = replicate (nat qx) x @ replicate (nat qy) y"
    by blast
  from loop cart have loop': "compra_loop (ped_id ?ped) (get_carrinho s) ?d2 0 [] =
        (d3, p_preco px * of_int qx + p_preco py * of_int qy, ies)" by simp
  from finalizar_compra_ok [OF auth user form loop', of mail_raises]
  have r: "out_resp r = Inr (Render ''obrigado.html'')" "out_db r = d3"
    "out_mail r = [\<lparr>cc_nome = nome, cc_email_destino = f_email form, cc_itens = ies,
       cc_total = p_preco px * of_int qx + p_preco py * of_int qy\<rparr>]"
    "get_carrinho (out_sess r) = []"
    by (simp_all add: r_def)
  from compra_loop_other [OF loop] have "pedidos d3 = pedidos d @ [?ped]"
    by (simp add: add_pedido_simps add_endereco_simps(1-5))
  moreover from new have "itens_pedido d3 = itens_pedido d @ new"
    by (simp add: add_pedido_simps add_endereco_simps(1-5))
  ultimately show ?thesis using r new(2,3)
    by (intro exI [of _ ?ped] exI [of _ new]) simp
qed

text \<open>
  Claim C1. The cart holds two units of product \<open>a\<close>, which costs 10.00, and one unit
  of another product \<open>b\<close>, which costs 5.00, in either order; the form is complete and
  the session's user has a row. Then the checkout answers with the thank-you page, adds
  one order and exactly three order items, all linked to that order, two of them
  referencing \<open>a\<close> and one referencing \<open>b\<close>; the total it computes and hands to the
  notifier is 25.00; and the session's cart is empty afterwards.
\<close>

theorem checkout_two_a_one_b:
  fixes mail_raises :: "compra_call \<Rightarrow> bool" and form :: form_compra
    and s :: session and d :: db
  assumes auth: "sess_usuario s = Some nome" and user: "Usuario_first d nome = Some u"
    and form: "list_all truthy (campos_obrigatorios form)"
    and cart: "get_carrinho s = [(KStr (str_int a), 2), (KStr (str_int b), 1)] \<or>
               get_carrinho s = [(KStr (str_int b), 1), (KStr (str_int a), 2)]"
    and pa: "Produto_get d (KInt a) = Some pa" "p_preco pa = 10"
    and pb: "Produto_get d (KInt b) = Some pb" "p_preco pb = 5"
    and ab: "a \<noteq> b"
  defines "r \<equiv> finalizar_compra mail_raises POST form s d"
  shows "\<exists>ped new call. out_resp r = Inr (Render ''obrigado.html'') \<and>
     pedidos (out_db r) = pedidos d @ [ped] \<and>
     itens_pedido (out_db r) = itens_pedido d @ new \<and>
     length new = 3 \<and>
     (\<forall>i \<in> set new. it_pedido_id i = ped_id ped) \<and>
     length (filter (\<lambda>i. it_produto_id i = a) new) = 2 \<and>
     length (filter (\<lambda>i. it_produto_id i = b) new) = 1 \<and>
     out_mail r = [call] \<and> cc_total call = 25 \<and>
     get_carrinho (out_sess r) = []"
proof -
  have n3: "nat 2 + nat 1 = (3::nat)" by simp
  have cnt: "length (filter (\<lambda>i. it_produto_id i = v) new) =
      length (filter (\<lambda>w. w = v) (map it_produto_id new))" for v and new :: "item_pedido list"
    by (simp add: filter_map o_def)
  have rows: "length new = 3 \<and> (\<forall>i \<in> set new. it_pedido_id i = pe)"
    if "map it_pedido_id new = replicate 3 pe" for new :: "item_pedido list" and pe
  proof
    from that have "length (map it_pedido_id new) = 3" by simp
    then show "length new = 3" by simp
    from that have "set (map it_pedido_id new) \<subseteq> {pe}" by simp
    then show "\<forall>i \<in> set new. it_pedido_id i = pe" by auto
  qed
  from cart show ?thesis
  proof
    assume c: "get_carrinho s = [(KStr (str_int a), 2), (KStr (str_int b), 1)]"
    from checkout_two [OF auth user form c pa(1) pb(1), of mail_raises] obtain ped new call where
      h: "out_resp r = Inr (Render ''obrigado.html'')" "pedidos (out_db r) = pedidos d @ [ped]"
        "itens_pedido (out_db r) = itens_pedido d @ new"
        "map it_pedido_id new = replicate (nat 2 + nat 1) (ped_id ped)"
        "map it_produto_id new = replicate (nat 2) a @ replicate (nat 1) b"
        "out_mail r = [call]"
        "cc_total call = p_preco pa * of_int 2 + p_preco pb * of_int 1"
        "get_carrinho (out_sess r) = []"
      unfolding r_def by blast
    from h(5) have ids: "map it_produto_id new = [a, a, b]" by (simp add: numeral_2_eq_2)
    from h(7) pa(2) pb(2) have tot: "cc_total call = 25" by simp
    from ids ab have "length (filter (\<lambda>i. it_produto_id i = a) new) = 2"
      "length (filter (\<lambda>i. it_produto_id i = b) new) = 1"
      unfolding cnt by simp_all
    with h(1-3,6,8) tot rows [OF h(4) [unfolded n3]] show ?thesis by blast
  next
    assume c: "get_carrinho s = [(KStr (str_int b), 1), (KStr (str_int a), 2)]"
    from checkout_two [OF auth user form c pb(1) pa(1), of mail_raises] obtain ped new call where
      h: "out_resp r = Inr (Render ''obrigado.html'')" "pedidos (out_db r) = pedidos d @ [ped]"
        "itens_pedido (out_db r) = itens_pedido d @ new"
        "map it_pedido_id new = replicate (nat 1 + nat 2) (ped_id ped)"
        "map it_produto_id new = replicate (nat 1) b @ replicate (nat 2) a"
        "out_mail r = [call]"
        "cc_total call = p_preco pb * of_int 1 + p_preco pa * of_int 2"
        "get_carrinho (out_sess r) = []"
      unfolding r_def by blast
    have n3': "nat 1 + nat 2 = (3::nat)" by simp
    from h(5) have ids: "map it_produto_id new = [b, a, a]" by (simp add: numeral_2_eq_2)
    from h(7) pa(2) pb(2) have tot: "cc_total call = 25" by simp
    from ids ab have "length (filter (\<lambda>i. it_produto_id i = a) new) = 2"
      "length (filter (\<lambda>i. it_produto_id i = b) new) = 1"
      unfolding cnt by simp_all
    with h(1-3,6,8) tot rows [OF h(4) [unfolded n3']] show ?thesis by blast
  qed
qed

text \<open>
  The theorem on the shop: products 1 and 2, cart \<open>{'1': 2, '2': 1}\<close>.
\<close>

theorem checkout_two_a_one_b_witness:
  "sess_usuario sessao_ab = Some ''ana'' \<and>
   get_carrinho sessao_ab = [(KStr (str_int 1), 2), (KStr (str_int 2), 1)] \<and>
   list_all truthy (campos_obrigatorios form_completo) \<and>
   itens_pedido (out_db (finalizar_compra (\<lambda>c. False) POST form_completo sessao_ab loja)) =
     [\<lparr>it_id = 1, it_pedido_id = 1, it_produto_id = 1\<rparr>,
      \<lparr>it_id = 2, it_pedido_id = 1, it_produto_id = 1\<rparr>,
      \<lparr>it_id = 3, it_pedido_id = 1, it_produto_id = 2\<rparr>] \<and>
   map cc_total (out_mail (finalizar_compra (\<lambda>c. False) POST form_completo sessao_ab loja)) = [25]"
proof -
  have u: "sess_usuario sessao_ab = Some ''ana''" by (simp add: sessao_ab_def)
  have c: "get_carrinho sessao_ab = [(KStr (str_int 1), 2), (KStr (str_int 2), 1)]"
    by (simp add: sessao_ab_def get_carrinho_def str_int_1 str_int_2)
  have ne: "(1::int) \<noteq> 2" by simp
  from checkout_two_a_one_b [OF u Usuario_first_loja form_completo_ok disjI1 [OF c]
      Produto_get_loja(1) _ Produto_get_loja(2) _ ne, of "\<lambda>c. False"]
  obtain ped new call where
    "itens_pedido (out_db (finalizar_compra (\<lambda>c. False) POST form_completo sessao_ab loja)) =
       itens_pedido loja @ new"
    "out_mail (finalizar_compra (\<lambda>c. False) POST form_completo sessao_ab loja) = [call]"
    "cc_total call = 25"
    by auto
  moreover have "itens_pedido (out_db (finalizar_compra (\<lambda>c. False) POST form_completo sessao_ab loja)) =
     [\<lparr>it_id = 1, it_pedido_id = 1, it_produto_id = 1\<rparr>,
      \<lparr>it_id = 2, it_pedido_id = 1, it_produto_id = 1\<rparr>,
      \<lparr>it_id = 3, it_pedido_id = 1, it_produto_id = 2\<rparr>]"
    by (simp add: finalizar_compra_def sessao_ab_def get_carrinho_def form_completo_def
        campos_obrigatorios_def truthy_def loja_def Usuario_first_def add_pedido_def
        add_endereco_def Produto_get_def py_int_1 py_int_2 add_item_def new_id_def
        numeral_2_eq_2 Let_def)
  ultimately show ?thesis using u c form_completo_ok by simp
qed

text \<open>
  Claim C3. When the notifier raises on the call that the checkout makes, the checkout
  still answers with the thank-you page and prints the failure. The database it leaves
  behind is the one a checkout with a working notifier leaves behind: it holds the new
  order, which a query by its id finds, the address linked to it, and the order items,
  all linked to it.
\<close>

theorem checkout_survives_mail_failure:
  fixes mail_raises :: "compra_call \<Rightarrow> bool" and form :: form_compra
    and s :: session and d :: db
  assumes auth: "sess_usuario s = Some nome" and user: "Usuario_first d nome = Some u"
    and form: "list_all truthy (campos_obrigatorios form)"
    and raises: "\<forall>c \<in> set (out_mail (finalizar_compra mail_raises POST form s d)). mail_raises c"
  defines "r \<equiv> finalizar_compra mail_raises POST form s d"
  shows "out_resp r = Inr (Render ''obrigado.html'') \<and>
     out_log r = [''Falha ao enviar e-mail de pedido:''] \<and>
     length (out_mail r) = 1 \<and>
     out_db r = out_db (finalizar_compra (\<lambda>c. False) POST form s d) \<and>
     (\<exists>ped e new.
        pedidos (out_db r) = pedidos d @ [ped] \<and> ped_usuario_id ped = u_id u \<and>
        find (\<lambda>p. ped_id p = ped_id ped) (pedidos (out_db r)) = Some ped \<and>
        enderecos (out_db r) = enderecos d @ [e] \<and> e_pedido_id e = ped_id ped \<and>
        itens_pedido (out_db r) = itens_pedido d @ new \<and>
        (\<forall>i \<in> set new. it_pedido_id i = ped_id ped))"
proof -
  let ?ped = "fst (add_pedido (u_id u) d)"
  let ?d2 = "add_endereco (ped_id ?ped) form (snd (add_pedido (u_id u) d))"
  obtain d3 tot ies where
    loop: "compra_loop (ped_id ?ped) (get_carrinho s) ?d2 0 [] = (d3, tot, ies)"
    by (rule prod_cases3)
  let ?call = "\<lparr>cc_nome = nome, cc_email_destino = f_email form, cc_itens = ies,
      cc_total = tot\<rparr>"
  note ok = finalizar_compra_ok [OF auth user form loop]
  have mail: "out_mail r = [?call]" by (simp add: r_def ok)
  with raises have "mail_raises ?call" by (simp add: r_def)
  then have r: "out_resp r = Inr (Render ''obrigado.html'')"
    "out_log r = [''Falha ao enviar e-mail de pedido:'']" "out_db r = d3"
    by (simp_all add: r_def ok)
  have same: "out_db (finalizar_compra (\<lambda>c. False) POST form s d) = d3"
    by (simp add: ok)
  from compra_loop_other [OF loop] have peds: "pedidos d3 = pedidos d @ [?ped]"
    and ends: "enderecos d3 = enderecos ?d2"
    by (simp_all add: add_pedido_simps add_endereco_simps(1-5))
  from add_endereco_simps(6) [of "ped_id ?ped" form "snd (add_pedido (u_id u) d)"] ends
  obtain e where e: "enderecos d3 = enderecos d @ [e]" "e_pedido_id e = ped_id ?ped"
    by (auto simp: add_pedido_simps)
  from compra_loop_rows [OF loop] obtain new where
    new: "itens_pedido d3 = itens_pedido d @ new" "\<forall>i \<in> set new. it_pedido_id i = ped_id ?ped"
    by (auto simp: add_pedido_simps add_endereco_simps(1-5))
  have "ped_id ?ped = new_id (map ped_id (pedidos d))" by (simp add: add_pedido_def Let_def)
  with new_id_fresh [of "map ped_id (pedidos d)"]
  have "\<forall>y \<in> set (pedidos d). \<not> ped_id y = ped_id ?ped"
    by (metis imageI list.set_map)
  then have found: "find (\<lambda>p. ped_id p = ped_id ?ped) (pedidos d @ [?ped]) = Some ?ped"
    by (rule find_snoc_fresh) simp
  have "\<exists>ped e new.
        pedidos d3 = pedidos d @ [ped] \<and> ped_usuario_id ped = u_id u \<and>
        find (\<lambda>p. ped_id p = ped_id ped) (pedidos d3) = Some ped \<and>
        enderecos d3 = enderecos d @ [e] \<and> e_pedido_id e = ped_id ped \<and>
        itens_pedido d3 = itens_pedido d @ new \<and>
        (\<forall>i \<in> set new. it_pedido_id i = ped_id ped)"
    using peds e new found
    by (intro exI [of _ ?ped] exI [of _ e] exI [of _ new]) (simp add: add_pedido_simps)
  with r same mail show ?thesis by simp
qed

text \<open>
  The theorem on the shop, with a notifier that always raises.
\<close>

theorem checkout_survives_mail_failure_witness:
  "sess_usuario sessao_ab = Some ''ana'' \<and>
   out_resp (finalizar_compra (\<lambda>c. True) POST form_completo sessao_ab loja) =
     Inr (Render ''obrigado.html'') \<and>
   out_log (finalizar_compra (\<lambda>c. True) POST form_completo sessao_ab loja) =
     [''Falha ao enviar e-mail de pedido:''] \<and>
   pedidos (out_db (finalizar_compra (\<lambda>c. True) POST form_completo sessao_ab loja)) =
     [\<lparr>ped_id = 1, ped_usuario_id = 1\<rparr>]"
proof -
  have u: "sess_usuario sessao_ab = Some ''ana''" by (simp add: sessao_ab_def)
  have p: "pedidos loja = []" by (simp add: loja_def)
  from checkout_survives_mail_failure [OF u Usuario_first_loja form_completo_ok, of "\<lambda>c. True"]
  have h: "out_resp (finalizar_compra (\<lambda>c. True) POST form_completo sessao_ab loja) =
       Inr (Render ''obrigado.html'')"
    "out_log (finalizar_compra (\<lambda>c. True) POST form_completo sessao_ab loja) =
       [''Falha ao enviar e-mail de pedido:'']"
    by simp_all
  have "pedidos (out_db (finalizar_compra (\<lambda>c. True) POST form_completo sessao_ab loja)) =
     [\<lparr>ped_id = 1, ped_usuario_id = 1\<rparr>]"
    by (simp add: finalizar_compra_def sessao_ab_def get_carrinho_def form_completo_def
        campos_obrigatorios_def truthy_def loja_def Usuario_first_def add_pedido_def
        add_endereco_def Produto_get_def py_int_1 py_int_2 add_item_def new_id_def
        numeral_2_eq_2 Let_def)
  with h u show ?thesis by simp
qed

subsection \<open>Reviews\<close>

lemma py_int_5: "py_int ''5'' = Some 5"
  by (simp add: py_int_def int_space_def int_literal_def digit_val_def)

lemma py_int_examples: "py_int '' 5 '' = Some 5" "py_int ''1_0'' = Some 10"
  by (simp_all add: py_int_def int_space_def int_literal_def digit_val_def)

text \<open>
  An identifier that does not fit the column makes the commit fail, and the database
  stays as it was.
\<close>

lemma avaliar_out_of_range:
  assumes "sess_usuario s = Some nome" and "Usuario_first d nome = Some u"
    and "f_nota form = Some nota_str" and "py_int nota_str = Some nota"
    and "f_comentario form = Some comentario"
    and "\<not> sqlite_int produto_id"
  shows "avaliar produto_id form s d = (Inl OverflowError, d)"
  using assms by (simp add: avaliar_def add_avaliacao_def)

text \<open>
  Claim C10, as amended. The session is logged in and its user has a row; the form
  carries a comment and a rating that \<open>int\<close> reads (a literal of at most 4300
  characters); and the product identifier of the route, the rating and the user's id fit
  SQLite's signed 64-bit INTEGER. Then \<open>avaliar\<close> adds exactly one review row, linked to
  that user and to that identifier, whether or not a product has it: the handler never
  looks the product up.
\<close>

theorem avaliar_creates_one_review:
  assumes "sess_usuario s = Some nome" and "Usuario_first d nome = Some u"
    and "f_nota form = Some nota_str" and "py_int nota_str = Some nota"
    and "length nota_str \<le> 4300"
    and "f_comentario form = Some comentario"
    and "sqlite_int (u_id u)" and "sqlite_int produto_id" and "sqlite_int nota"
  shows "\<exists>row. avaliar produto_id form s d =
           (Inr (Redirect ''index''), d\<lparr>avaliacoes := avaliacoes d @ [row]\<rparr>) \<and>
         av_usuario_id row = u_id u \<and> av_produto_id row = produto_id \<and>
         av_nota row = nota \<and> av_comentario row = comentario"
proof -
  let ?row = "\<lparr>av_id = new_id (map av_id (avaliacoes d)), av_usuario_id = u_id u,
      av_produto_id = produto_id, av_nota = nota, av_comentario = comentario\<rparr>"
  from assms have "avaliar produto_id form s d =
      (Inr (Redirect ''index''), d\<lparr>avaliacoes := avaliacoes d @ [?row]\<rparr>)"
    by (simp add: avaliar_def add_avaliacao_def)
  then show ?thesis by (intro exI [of _ ?row]) simp
qed

text \<open>
  The theorem for product 77, which the shop does not have.
\<close>

theorem avaliar_creates_one_review_witness:
  "sess_usuario logged_in = Some ''ana'' \<and> Produto_get loja (KInt 77) = None \<and>
   py_int ''5'' = Some 5 \<and> length ''5'' \<le> (4300::nat) \<and>
   sqlite_int 1 \<and> sqlite_int 77 \<and> sqlite_int 5 \<and>
   avaliar 77 \<lparr>f_nota = Some ''5'', f_comentario = Some ''great''\<rparr> logged_in loja =
     (Inr (Redirect ''index''),
      loja\<lparr>avaliacoes := [\<lparr>av_id = 1, av_usuario_id = 1, av_produto_id = 77, av_nota = 5,
                            av_comentario = ''great''\<rparr>]\<rparr>)"
proof -
  have u: "sess_usuario logged_in = Some ''ana''" by (simp add: logged_in_def)
  have r: "sqlite_int 1" "sqlite_int 77" "sqlite_int 5" by (simp_all add: sqlite_int_def)
  have l: "length ''5'' \<le> (4300::nat)" by simp
  have n: "f_nota \<lparr>f_nota = Some ''5'', f_comentario = Some ''great''\<rparr> = Some ''5''"
    and c: "f_comentario \<lparr>f_nota = Some ''5'', f_comentario = Some ''great''\<rparr> = Some ''great''"
    by simp_all
  have ru: "sqlite_int (u_id \<lparr>u_id = 1, u_nome = ''ana'', u_senha = ''s''\<rparr>)"
    using r(1) by simp
  from avaliar_creates_one_review [OF u Usuario_first_loja n py_int_5 l c ru r(2) r(3)]
  obtain row where "avaliar 77 \<lparr>f_nota = Some ''5'', f_comentario = Some ''great''\<rparr> logged_in loja =
           (Inr (Redirect ''index''), loja\<lparr>avaliacoes := avaliacoes loja @ [row]\<rparr>)"
    by blast
  moreover have "avaliar 77 \<lparr>f_nota = Some ''5'', f_comentario = Some ''great''\<rparr> logged_in loja =
     (Inr (Redirect ''index''),
      loja\<lparr>avaliacoes := [\<lparr>av_id = 1, av_usuario_id = 1, av_produto_id = 77, av_nota = 5,
                            av_comentario = ''great''\<rparr>]\<rparr>)"
    by (simp add: avaliar_def logged_in_def py_int_5 Usuario_first_def loja_def
        add_avaliacao_def sqlite_int_def new_id_def)
  moreover have "Produto_get loja (KInt 77) = None" by (simp add: Produto_get_def loja_def)
  ultimately show ?thesis using u r l py_int_5 by simp
qed

text \<open>
  Claim C10 as stated fails: it speaks of every product identifier, and the route
  accepts 9223372036854775808 (2 to the power 63), which the column cannot hold. The commit raises an
  OverflowError and no review row is created.
\<close>

theorem avaliar_overflow_counterexample:
  "sess_usuario logged_in = Some ''ana'' \<and>
   avaliar 9223372036854775808 \<lparr>f_nota = Some ''5'', f_comentario = Some ''great''\<rparr>
     logged_in loja = (Inl OverflowError, loja)"
  by (simp add: avaliar_def logged_in_def py_int_5 Usuario_first_def loja_def
      add_avaliacao_def sqlite_int_def)

subsection \<open>Reports\<close>

lemma vendas_no_orders: "pedidos d = [] \<Longrightarrow> \<exists>rep. enviar_relatorio d = Inr rep \<and>
    r_total_pedidos rep = 0 \<and> r_total_vendas rep = 0"
  by (simp add: enviar_relatorio_def)

text \<open>
  Claim C8. The claim says that the aggregation has no error path, in particular when an
  order item references a product that no longer exists. In the database where the only
  order item references the deleted product 1, the revenue loop of \<open>enviar_relatorio\<close>
  reads \<open>item.produto.preco\<close> of \<open>None\<close> and the request ends in an AttributeError, while
  the chart loop of \<open>relatorios_admin\<close> tests \<open>item.produto\<close> first and skips the row.
\<close>

theorem enviar_relatorio_dangling_product:
  "item_produto loja_sem_produto \<lparr>it_id = 1, it_pedido_id = 1, it_produto_id = 1\<rparr> = None \<and>
   enviar_relatorio loja_sem_produto = Inl AttributeError \<and>
   relatorios_admin loja_sem_produto = None"
  by (simp add: enviar_relatorio_def relatorios_admin_def loja_sem_produto_def item_produto_def
      Produto_get_def pedido_itens_def)


end
